theory Spec2Isabelle
  imports Complex_Main
begin

section \<open>Exceptions\<close>

text \<open>
  Every exception that \<^verbatim>\<open>lingo24/business_documents/jobs.py\<close> can raise or let through is a
  value. \<open>RequestException\<close> is \<^verbatim>\<open>requests.RequestException\<close>; its argument is the
  \<^verbatim>\<open>status_code\<close> of its \<^verbatim>\<open>response\<close> attribute, \<open>None\<close> when the exception carries no
  response (a refused connection, a timeout). \<open>APIError\<close> carries the exception it wraps.
  \<open>OtherError\<close> is any exception of a collaborator that is not a \<open>RequestException\<close>.
\<close>

datatype exn =
    ValueError string
  | AttributeError string
  | KeyError string
  | InvalidOperation
  | RequestException "int option"
  | APIError exn
  | OtherError string

section \<open>Decimal numbers\<close>

text \<open>
  The finite numbers first. A finite number of Python's \<^verbatim>\<open>decimal\<close> module: a sign, a coefficient and an exponent,
  standing for \<open>\<plusminus> dcoeff * 10 ^ dexp\<close>. The arithmetic is that of the default context:
  28 significant digits, rounding half to even, InvalidOperation trapped. The exponent
  limits of the context are left out. The special values follow the finite numbers.
\<close>

record decimal =
  dsign :: bool
  dcoeff :: nat
  dexp :: int

definition prec :: nat where
  "prec = 28"

fun ndigits :: "nat \<Rightarrow> nat" where
  "ndigits n = (if n < 10 then 1 else Suc (ndigits (n div 10)))"

declare ndigits.simps [simp del]

definition signed :: "decimal \<Rightarrow> int" where
  "signed d = (if dsign d then - int (dcoeff d) else int (dcoeff d))"

definition dec_val :: "decimal \<Rightarrow> rat" where
  "dec_val d = (if 0 \<le> dexp d then of_int (signed d) * 10 ^ nat (dexp d)
                else of_int (signed d) / 10 ^ nat (- dexp d))"

definition round_half_even :: "nat \<Rightarrow> nat \<Rightarrow> nat" where
  \<comment> \<open>drop the last \<open>k\<close> digits of \<open>c\<close>, rounding half to even\<close>
  "round_half_even c k =
     (let p = 10 ^ k; q = c div p; r = c mod p
      in if p < 2 * r \<or> (2 * r = p \<and> odd q) then q + 1 else q)"

definition dec_fix :: "decimal \<Rightarrow> decimal" where
  \<comment> \<open>round a result to the precision of the context\<close>
  "dec_fix d =
     (if dcoeff d = 0 then d
      else if prec < ndigits (dcoeff d) then
        (let k = ndigits (dcoeff d) - prec; q = round_half_even (dcoeff d) k
         in if prec < ndigits q
            then \<lparr>dsign = dsign d, dcoeff = q div 10, dexp = dexp d + int k + 1\<rparr>
            else \<lparr>dsign = dsign d, dcoeff = q, dexp = dexp d + int k\<rparr>)
      else d)"

definition dec_add :: "decimal \<Rightarrow> decimal \<Rightarrow> decimal" where
  \<comment> \<open>the sum of finite numbers: the exact sum at the smaller exponent, then rounded\<close>
  "dec_add a b =
     (let e = min (dexp a) (dexp b);
          s = signed a * 10 ^ nat (dexp a - e) + signed b * 10 ^ nat (dexp b - e)
      in if s = 0
         then \<lparr>dsign = (dcoeff a = 0 \<and> dcoeff b = 0 \<and> dsign a \<and> dsign b), dcoeff = 0, dexp = e\<rparr>
         else dec_fix \<lparr>dsign = (s < 0), dcoeff = nat \<bar>s\<bar>, dexp = e\<rparr>)"

definition dec_neg :: "decimal \<Rightarrow> decimal" where
  "dec_neg d = d\<lparr>dsign := \<not> dsign d\<rparr>"

definition dec_sub :: "decimal \<Rightarrow> decimal \<Rightarrow> decimal" where
  \<comment> \<open>subtraction adds the negated operand\<close>
  "dec_sub a b = dec_add a (dec_neg b)"

definition dec_eq :: "decimal \<Rightarrow> decimal \<Rightarrow> bool" where
  \<comment> \<open>equality of finite numbers compares the numbers, not their representations\<close>
  "dec_eq a b =
     (let e = min (dexp a) (dexp b)
      in signed a * 10 ^ nat (dexp a - e) = signed b * 10 ^ nat (dexp b - e))"

definition dec_of_int :: "int \<Rightarrow> decimal" where
  "dec_of_int i = \<lparr>dsign = (i < 0), dcoeff = nat \<bar>i\<bar>, dexp = 0\<rparr>"

definition rescale :: "decimal \<Rightarrow> int \<Rightarrow> decimal" where
  \<comment> \<open>\<^verbatim>\<open>Decimal._rescale\<close>: pad with zeros, or round away the digits below the exponent\<close>
  "rescale d x =
     (if dcoeff d = 0 then \<lparr>dsign = dsign d, dcoeff = 0, dexp = x\<rparr>
      else if x \<le> dexp d
        then \<lparr>dsign = dsign d, dcoeff = dcoeff d * 10 ^ nat (dexp d - x), dexp = x\<rparr>
      else \<lparr>dsign = dsign d, dcoeff = round_half_even (dcoeff d) (nat (x - dexp d)), dexp = x\<rparr>)"

definition DP2_exp :: int where
  \<comment> \<open>the exponent of \<^verbatim>\<open>DP2 = Decimal('0.00')\<close>\<close>
  "DP2_exp = - 2"

definition quantize_finite :: "decimal \<Rightarrow> exn + decimal" where
  \<comment> \<open>\<^verbatim>\<open>d.quantize(DP2)\<close> for a finite \<open>d\<close>: fails when the result would need more digits than
      the precision\<close>
  "quantize_finite d =
     (if dcoeff d = 0 then Inr \<lparr>dsign = dsign d, dcoeff = 0, dexp = DP2_exp\<rparr>
      else if int prec < (int (ndigits (dcoeff d)) + dexp d - 1) - DP2_exp + 1
        then Inl InvalidOperation
      else (let ans = rescale d DP2_exp
            in if prec < ndigits (dcoeff ans) then Inl InvalidOperation else Inr ans))"

subsection \<open>Special values\<close>

text \<open>
  A \<^verbatim>\<open>Decimal\<close> is a finite number, an infinity, a quiet NaN or a signalling NaN; the
  last three carry a sign, the NaNs also a payload (0 when there is none).
\<close>

datatype Decimal =
    Finite decimal
  | Infinity bool
  | NaN bool nat
  | sNaN bool nat

definition fix_nan :: "bool \<Rightarrow> nat \<Rightarrow> Decimal" where
  \<comment> \<open>\<^verbatim>\<open>Decimal._fix_nan\<close>: a payload longer than the precision keeps its last digits\<close>
  "fix_nan s p = NaN s (p mod 10 ^ prec)"

fun Decimal_negate :: "Decimal \<Rightarrow> Decimal" where
  "Decimal_negate (Finite d) = Finite (dec_neg d)"
| "Decimal_negate (Infinity s) = Infinity (\<not> s)"
| "Decimal_negate (NaN s p) = NaN (\<not> s) p"
| "Decimal_negate (sNaN s p) = sNaN (\<not> s) p"

fun Decimal_add :: "Decimal \<Rightarrow> Decimal \<Rightarrow> exn + Decimal" where
  \<comment> \<open>\<^verbatim>\<open>Decimal.__add__\<close>: a signalling NaN raises, a quiet NaN is the result, infinities of
      opposite sign raise\<close>
  "Decimal_add (sNaN s p) other = Inl InvalidOperation"
| "Decimal_add self (sNaN s p) = Inl InvalidOperation"
| "Decimal_add (NaN s p) other = Inr (fix_nan s p)"
| "Decimal_add self (NaN s p) = Inr (fix_nan s p)"
| "Decimal_add (Infinity s) (Infinity t) =
     (if s \<noteq> t then Inl InvalidOperation else Inr (Infinity s))"
| "Decimal_add (Infinity s) other = Inr (Infinity s)"
| "Decimal_add self (Infinity t) = Inr (Infinity t)"
| "Decimal_add (Finite a) (Finite b) = Inr (Finite (dec_add a b))"

fun Decimal_sub :: "Decimal \<Rightarrow> Decimal \<Rightarrow> exn + Decimal" where
  \<comment> \<open>\<^verbatim>\<open>Decimal.__sub__\<close>: the NaNs are looked at first, then the negated operand is added\<close>
  "Decimal_sub (sNaN s p) other = Inl InvalidOperation"
| "Decimal_sub self (sNaN s p) = Inl InvalidOperation"
| "Decimal_sub (NaN s p) other = Inr (fix_nan s p)"
| "Decimal_sub self (NaN s p) = Inr (fix_nan s p)"
| "Decimal_sub self other = Decimal_add self (Decimal_negate other)"

fun Decimal_eq :: "Decimal \<Rightarrow> Decimal \<Rightarrow> exn + bool" where
  \<comment> \<open>\<^verbatim>\<open>Decimal.__eq__\<close>: a quiet NaN is equal to nothing; a signalling NaN raises (as in
      Python 3; Python 2.7 returns False there)\<close>
  "Decimal_eq (sNaN s p) other = Inl InvalidOperation"
| "Decimal_eq self (sNaN s p) = Inl InvalidOperation"
| "Decimal_eq (NaN s p) other = Inr False"
| "Decimal_eq self (NaN s p) = Inr False"
| "Decimal_eq (Infinity s) (Infinity t) = Inr (s = t)"
| "Decimal_eq (Infinity s) other = Inr False"
| "Decimal_eq self (Infinity t) = Inr False"
| "Decimal_eq (Finite a) (Finite b) = Inr (dec_eq a b)"

fun quantize_DP2 :: "Decimal \<Rightarrow> exn + Decimal" where
  \<comment> \<open>\<^verbatim>\<open>d.quantize(DP2)\<close>: a quiet NaN is returned, a signalling NaN and an infinity raise\<close>
  "quantize_DP2 (sNaN s p) = Inl InvalidOperation"
| "quantize_DP2 (NaN s p) = Inr (fix_nan s p)"
| "quantize_DP2 (Infinity s) = Inl InvalidOperation"
| "quantize_DP2 (Finite d) =
     (case quantize_finite d of Inl e \<Rightarrow> Inl e | Inr q \<Rightarrow> Inr (Finite q))"

subsection \<open>The string of a decimal\<close>

definition digit_char :: "nat \<Rightarrow> char" where
  "digit_char n = char_of (48 + n)"

fun digits_of :: "nat \<Rightarrow> string" where
  "digits_of n = (if n < 10 then [digit_char n] else digits_of (n div 10) @ [digit_char (n mod 10)])"

declare digits_of.simps [simp del]

definition str_int :: "int \<Rightarrow> string" where
  "str_int i = (if i < 0 then ''-'' @ digits_of (nat (- i)) else digits_of (nat i))"






section \<open>The value types\<close>

record Price =
  currency_code :: string
  net :: Decimal
  gross :: Decimal

record JobPrice =
  total_with_discount :: Price
  total_without_discount :: Price

record Metric =
  white_spaces :: int
  segments :: int
  words :: int
  characters :: int

text \<open>
  \<open>JobFileCollection.__init__\<close> keeps the owning job (a reference) and the page size.
\<close>

record JobFileCollection =
  job :: nat
  page_size :: int

text \<open>
  The arguments of \<open>Job.__init__\<close>, and the attributes of a \<open>Job\<close> (its \<^verbatim>\<open>__dict__\<close>): the
  arguments and \<open>files\<close>. A collection is known by its handle; an id that is \<^verbatim>\<open>None\<close> in
  Python is \<open>None\<close>.
\<close>

record JobArgs =
  collection :: nat
  job_id :: int
  status :: string
  service_id :: "int option"
  source_locale_id :: "int option"
  target_locale_id :: "int option"
  source_file_id :: "int option"
  target_file_id :: "int option"

record Job = JobArgs +
  files :: JobFileCollection

section \<open>Python values and attribute access\<close>

datatype pyval =
    PNone
  | PInt int
  | PStr string
  | PDec Decimal
  | PColl nat
  | PFiles JobFileCollection
  | PPrice Price
  | PJobPrice JobPrice
  | PMetric Metric
  | PJob Job

definition opt_val :: "int option \<Rightarrow> pyval" where
  "opt_val x = (case x of None \<Rightarrow> PNone | Some i \<Rightarrow> PInt i)"

definition price_attrs :: "Price \<Rightarrow> (string \<times> pyval) list" where
  "price_attrs p =
     [(''currency_code'', PStr (currency_code p)), (''net'', PDec (net p)),
      (''gross'', PDec (gross p))]"

definition job_price_attrs :: "JobPrice \<Rightarrow> (string \<times> pyval) list" where
  "job_price_attrs jp =
     [(''total_with_discount'', PPrice (total_with_discount jp)),
      (''total_without_discount'', PPrice (total_without_discount jp))]"

definition metric_attrs :: "Metric \<Rightarrow> (string \<times> pyval) list" where
  "metric_attrs m =
     [(''white_spaces'', PInt (white_spaces m)), (''segments'', PInt (segments m)),
      (''words'', PInt (words m)), (''characters'', PInt (characters m))]"

definition job_attrs :: "Job \<Rightarrow> (string \<times> pyval) list" where
  "job_attrs j =
     [(''collection'', PColl (collection j)), (''id'', PInt (job_id j)),
      (''status'', PStr (status j)), (''service_id'', opt_val (service_id j)),
      (''source_locale_id'', opt_val (source_locale_id j)),
      (''target_locale_id'', opt_val (target_locale_id j)),
      (''source_file_id'', opt_val (source_file_id j)),
      (''target_file_id'', opt_val (target_file_id j)),
      (''files'', PFiles (files j))]"

text \<open>
  The instance attributes of a value, as the \<^verbatim>\<open>__init__\<close> methods set them; the other
  values have none of the attributes that the comparisons below read.
\<close>

fun attrs :: "pyval \<Rightarrow> (string \<times> pyval) list" where
  "attrs (PPrice p) = price_attrs p"
| "attrs (PJobPrice jp) = job_price_attrs jp"
| "attrs (PMetric m) = metric_attrs m"
| "attrs (PJob j) = job_attrs j"
| "attrs _ = []"

definition getattr :: "pyval \<Rightarrow> string \<Rightarrow> exn + pyval" where
  "getattr v name = (case map_of (attrs v) name of None \<Rightarrow> Inl (AttributeError name) | Some a \<Rightarrow> Inr a)"

text \<open>
  \<^verbatim>\<open>a == b\<close> for a left operand that is an \<^verbatim>\<open>int\<close>, a \<^verbatim>\<open>str\<close>, a \<^verbatim>\<open>Decimal\<close>, \<^verbatim>\<open>None\<close> or a
  collection. Such an operand cannot compare itself with an object of this module, so
  Python asks the object (the reflected \<^verbatim>\<open>__eq__\<close>), which for \<open>Price\<close>, \<open>Metric\<close> and
  \<open>Job\<close> reads an attribute that the left operand does not have.
\<close>

fun prim_eq :: "pyval \<Rightarrow> pyval \<Rightarrow> exn + bool" where
  "prim_eq a (PPrice p) = Inl (AttributeError ''currency_code'')"
| "prim_eq a (PMetric m) = Inl (AttributeError ''white_spaces'')"
| "prim_eq a (PJob j) = Inl (AttributeError ''collection'')"
| "prim_eq a (PJobPrice jp) = Inr False"
| "prim_eq PNone b = Inr (b = PNone)"
| "prim_eq (PInt i) (PInt k) = Inr (i = k)"
| "prim_eq (PInt i) (PDec d) = Decimal_eq (Finite (dec_of_int i)) d"
| "prim_eq (PDec d) (PInt i) = Decimal_eq d (Finite (dec_of_int i))"
| "prim_eq (PDec d) (PDec d') = Decimal_eq d d'"
| "prim_eq (PStr s) (PStr t) = Inr (s = t)"
| "prim_eq (PColl c) (PColl c') = Inr (c = c')"
| "prim_eq (PFiles f) (PFiles f') = Inr (f = f')"
| "prim_eq a b = Inr False"

definition attr_eq :: "pyval \<Rightarrow> pyval \<Rightarrow> string \<Rightarrow> exn + bool" where
  \<comment> \<open>\<^verbatim>\<open>a == other.name\<close>\<close>
  "attr_eq a other name = (case getattr other name of Inl e \<Rightarrow> Inl e | Inr b \<Rightarrow> prim_eq a b)"

fun py_all :: "(exn + bool) list \<Rightarrow> exn + bool" where
  \<comment> \<open>\<^verbatim>\<open>all((e1, e2, ...))\<close>: the tuple is built first, so the first failing element raises\<close>
  "py_all [] = Inr True"
| "py_all (Inl e # xs) = Inl e"
| "py_all (Inr b # xs) = (case py_all xs of Inl e \<Rightarrow> Inl e | Inr c \<Rightarrow> Inr (b \<and> c))"

section \<open>Metric\<close>

definition Metric_eq :: "Metric \<Rightarrow> pyval \<Rightarrow> exn + bool" where
  "Metric_eq self other =
     py_all [attr_eq (PInt (white_spaces self)) other ''white_spaces'',
             attr_eq (PInt (segments self)) other ''segments'',
             attr_eq (PInt (words self)) other ''words'',
             attr_eq (PInt (characters self)) other ''characters'']"

definition Metric_add :: "Metric \<Rightarrow> Metric \<Rightarrow> Metric" where
  "Metric_add self other =
     \<lparr>white_spaces = white_spaces self + white_spaces other,
      segments = segments self + segments other,
      words = words self + words other,
      characters = characters self + characters other\<rparr>"

definition truthy :: "int \<Rightarrow> bool" where
  "truthy i = (i \<noteq> 0)"

definition Metric_nonzero :: "Metric \<Rightarrow> bool" where
  \<comment> \<open>\<^verbatim>\<open>any((...))\<close> of the four counters\<close>
  "Metric_nonzero self =
     list_ex truthy [white_spaces self, segments self, words self, characters self]"

section \<open>Price\<close>

definition Price_eq :: "Price \<Rightarrow> pyval \<Rightarrow> exn + bool" where
  "Price_eq self other =
     py_all [attr_eq (PStr (currency_code self)) other ''currency_code'',
             attr_eq (PDec (net self)) other ''net'',
             attr_eq (PDec (gross self)) other ''gross'']"

definition Price_add :: "Price \<Rightarrow> Price \<Rightarrow> exn + Price" where
  "Price_add self other =
     (if currency_code self \<noteq> currency_code other
      then Inl (ValueError ''Cannot add prices with different currencies'')
      else (case Decimal_add (net self) (net other) of
              Inl e \<Rightarrow> Inl e
            | Inr n \<Rightarrow>
                (case Decimal_add (gross self) (gross other) of
                   Inl e \<Rightarrow> Inl e
                 | Inr g \<Rightarrow> Inr \<lparr>currency_code = currency_code self, net = n, gross = g\<rparr>)))"











section \<open>JobPrice\<close>

fun isinstance_JobPrice :: "pyval \<Rightarrow> bool" where
  "isinstance_JobPrice (PJobPrice jp) = True"
| "isinstance_JobPrice _ = False"

definition attr_Price_eq :: "Price \<Rightarrow> pyval \<Rightarrow> string \<Rightarrow> exn + bool" where
  \<comment> \<open>\<^verbatim>\<open>p == other.name\<close> for a \<open>Price\<close> on the left\<close>
  "attr_Price_eq p other name =
     (case getattr other name of Inl e \<Rightarrow> Inl e | Inr b \<Rightarrow> Price_eq p b)"

definition JobPrice_eq :: "JobPrice \<Rightarrow> pyval \<Rightarrow> exn + bool" where
  "JobPrice_eq self other =
     (if \<not> isinstance_JobPrice other then Inr False
      else py_all [attr_Price_eq (total_with_discount self) other ''total_with_discount'',
                   attr_Price_eq (total_without_discount self) other ''total_without_discount''])"

definition JobPrice_add :: "JobPrice \<Rightarrow> JobPrice \<Rightarrow> exn + JobPrice" where
  "JobPrice_add self other =
     (case Price_add (total_with_discount self) (total_with_discount other) of
        Inl e \<Rightarrow> Inl e
      | Inr w \<Rightarrow>
          (case Price_add (total_without_discount self) (total_without_discount other) of
             Inl e \<Rightarrow> Inl e
           | Inr wo \<Rightarrow> Inr \<lparr>total_with_discount = w, total_without_discount = wo\<rparr>))"

section \<open>Collaborators\<close>

text \<open>
  The JSON object that a request returns, by the keys this module reads; a key that the
  object does not have is \<open>None\<close>. \<open>'w\<close> is the type of a monetary figure on the wire (a
  number or a string).
\<close>

record metric_body =
  WHITE_SPACES :: "int option"
  SEGMENTS :: "int option"
  WORDS :: "int option"
  CHARACTERS :: "int option"

record 'w json =
  currencyCode :: "string option"
  totalWoVatWDiscount :: "'w option"
  totalWVatWDiscount :: "'w option"
  totalWoVatWoDiscount :: "'w option"
  totalWVatWoDiscount :: "'w option"
  values_key :: "(string \<times> metric_body) list option"

text \<open>
  A call on a collaborator takes the remote state \<open>'r\<close> and returns its result, or the
  exception it raises, with the new remote state. \<open>'o\<close> is the type of the objects that
  the registries return.
\<close>

record ('r, 'w, 'o) client =
  per_page :: int
  services_get :: "int option \<Rightarrow> 'r \<Rightarrow> (exn + 'o) \<times> 'r"
  locales_get :: "int option \<Rightarrow> 'r \<Rightarrow> (exn + 'o) \<times> 'r"
  files_get :: "int option \<Rightarrow> 'r \<Rightarrow> (exn + 'o) \<times> 'r"
  api_get_json :: "string \<Rightarrow> 'r \<Rightarrow> (exn + 'w json) \<times> 'r"
  api_delete :: "string \<Rightarrow> 'r \<Rightarrow> (exn + unit) \<times> 'r"

text \<open>
  \<open>jobs_get\<close> is \<^verbatim>\<open>collection.jobs.get\<close>: it returns the arguments from which the fetched
  \<open>Job\<close> is built.
\<close>

record ('r, 'w, 'o) job_collection =
  client :: "('r, 'w, 'o) client"
  item_url_path :: "int \<Rightarrow> string"
  jobs_get :: "int \<Rightarrow> 'r \<Rightarrow> (exn + JobArgs) \<times> 'r"

datatype call =
    ServicesGet "int option"
  | LocalesGet "int option"
  | FilesGet "int option"
  | ApiGetJson string
  | ApiDelete string
  | JobsGet nat int

text \<open>
  The state: the remote state, the calls made on collaborators so far, and the \<open>Job\<close>
  objects. An object is a reference; \<open>obj_dict\<close> gives the \<^verbatim>\<open>__dict__\<close> of an object and
  \<open>dicts\<close> the attributes that a \<^verbatim>\<open>__dict__\<close> holds, so that two objects can share one.
\<close>

record 'r world =
  remote :: 'r
  calls :: "call list"
  obj_dict :: "nat \<Rightarrow> nat"
  dicts :: "nat \<Rightarrow> Job"
  next_obj :: nat
  next_dict :: nat

definition attrs_of :: "'r world \<Rightarrow> nat \<Rightarrow> Job" where
  "attrs_of w self = dicts w (obj_dict w self)"

definition invoke :: "call \<Rightarrow> ('r \<Rightarrow> (exn + 'a) \<times> 'r) \<Rightarrow> 'r world \<Rightarrow> (exn + 'a) \<times> 'r world" where
  "invoke c f w = (case f (remote w) of (res, r) \<Rightarrow> (res, w\<lparr>remote := r, calls := calls w @ [c]\<rparr>))"

text \<open>
  Modelled from the spec: \<^verbatim>\<open>reraise\<close> of \<^verbatim>\<open>lingo24/exceptions.py\<close> is not among the sources.
  The spec: a transport error "is wrapped and re-raised as a generic APIError, preserving
  the original cause". \<open>exc\<close> is the exception being handled.
\<close>

definition reraise :: "(exn \<Rightarrow> exn) \<Rightarrow> exn \<Rightarrow> exn" where
  "reraise cls exc = cls exc"

section \<open>Job\<close>

definition Job_init :: "(nat \<Rightarrow> ('r, 'w, 'o) job_collection) \<Rightarrow> JobArgs \<Rightarrow> 'r world \<Rightarrow> nat \<times> 'r world" where
  \<comment> \<open>a new object with a new \<^verbatim>\<open>__dict__\<close>, filled as \<open>Job.__init__\<close> does\<close>
  "Job_init env a w =
     (let self = next_obj w; d = next_dict w;
          j = \<lparr>collection = collection a, job_id = job_id a, status = status a,
               service_id = service_id a, source_locale_id = source_locale_id a,
               target_locale_id = target_locale_id a, source_file_id = source_file_id a,
               target_file_id = target_file_id a,
               files = \<lparr>job = self, page_size = per_page (client (env (collection a)))\<rparr>\<rparr>
      in (self, w\<lparr>obj_dict := (obj_dict w)(self := d), dicts := (dicts w)(d := j),
                   next_obj := Suc self, next_dict := Suc d\<rparr>))"

definition Job_eq :: "Job \<Rightarrow> pyval \<Rightarrow> exn + bool" where
  "Job_eq self other =
     py_all [attr_eq (PColl (collection self)) other ''collection'',
             attr_eq (PInt (job_id self)) other ''id'',
             attr_eq (PStr (status self)) other ''status'',
             attr_eq (opt_val (service_id self)) other ''service_id'',
             attr_eq (opt_val (source_locale_id self)) other ''source_locale_id'',
             attr_eq (opt_val (target_locale_id self)) other ''target_locale_id'',
             attr_eq (opt_val (source_file_id self)) other ''source_file_id'',
             attr_eq (opt_val (target_file_id self)) other ''target_file_id'']"

definition url_path :: "(nat \<Rightarrow> ('r, 'w, 'o) job_collection) \<Rightarrow> Job \<Rightarrow> string" where
  "url_path env j = item_url_path (env (collection j)) (job_id j)"

definition Job_client :: "(nat \<Rightarrow> ('r, 'w, 'o) job_collection) \<Rightarrow> Job \<Rightarrow> ('r, 'w, 'o) client" where
  "Job_client env j = client (env (collection j))"

definition Job_service :: "(nat \<Rightarrow> ('r, 'w, 'o) job_collection) \<Rightarrow> nat \<Rightarrow> 'r world \<Rightarrow> (exn + 'o) \<times> 'r world" where
  "Job_service env self w =
     (let j = attrs_of w self
      in invoke (ServicesGet (service_id j)) (services_get (client (env (collection j))) (service_id j)) w)"

definition Job_source_locale :: "(nat \<Rightarrow> ('r, 'w, 'o) job_collection) \<Rightarrow> nat \<Rightarrow> 'r world \<Rightarrow> (exn + 'o) \<times> 'r world" where
  "Job_source_locale env self w =
     (let j = attrs_of w self
      in invoke (LocalesGet (source_locale_id j))
           (locales_get (client (env (collection j))) (source_locale_id j)) w)"

definition Job_target_locale :: "(nat \<Rightarrow> ('r, 'w, 'o) job_collection) \<Rightarrow> nat \<Rightarrow> 'r world \<Rightarrow> (exn + 'o) \<times> 'r world" where
  "Job_target_locale env self w =
     (let j = attrs_of w self
      in invoke (LocalesGet (target_locale_id j))
           (locales_get (client (env (collection j))) (target_locale_id j)) w)"

definition Job_source_file :: "(nat \<Rightarrow> ('r, 'w, 'o) job_collection) \<Rightarrow> nat \<Rightarrow> 'r world \<Rightarrow> (exn + 'o) \<times> 'r world" where
  "Job_source_file env self w =
     (let j = attrs_of w self
      in invoke (FilesGet (source_file_id j))
           (files_get (client (env (collection j))) (source_file_id j)) w)"

definition Job_target_file :: "(nat \<Rightarrow> ('r, 'w, 'o) job_collection) \<Rightarrow> nat \<Rightarrow> 'r world \<Rightarrow> (exn + 'o option) \<times> 'r world" where
  \<comment> \<open>the result \<open>None\<close> is Python's \<^verbatim>\<open>None\<close>\<close>
  "Job_target_file env self w =
     (let j = attrs_of w self
      in if target_file_id j = None then (Inr None, w)
         else (case invoke (FilesGet (target_file_id j))
                      (files_get (client (env (collection j))) (target_file_id j)) w of
                 (Inl e, w') \<Rightarrow> (Inl e, w')
               | (Inr f, w') \<Rightarrow> (Inr (Some f), w')))"

definition subscript :: "string \<Rightarrow> 'a option \<Rightarrow> exn + 'a" where
  \<comment> \<open>\<^verbatim>\<open>response[key]\<close>\<close>
  "subscript key x = (case x of None \<Rightarrow> Inl (KeyError key) | Some v \<Rightarrow> Inr v)"

definition money :: "('w \<Rightarrow> string) \<Rightarrow> (string \<Rightarrow> exn + Decimal) \<Rightarrow> string \<Rightarrow> 'w option \<Rightarrow> exn + Decimal" where
  \<comment> \<open>\<^verbatim>\<open>Decimal(str(response[key])).quantize(DP2)\<close>; \<open>str_of\<close> is \<^verbatim>\<open>str\<close> on a wire value and
      \<open>Decimal_str\<close> the \<^verbatim>\<open>Decimal\<close> constructor on a string\<close>
  "money str_of Decimal_str key x =
     (case subscript key x of
        Inl e \<Rightarrow> Inl e
      | Inr v \<Rightarrow> (case Decimal_str (str_of v) of Inl e \<Rightarrow> Inl e | Inr d \<Rightarrow> quantize_DP2 d))"

definition make_Price :: "exn + string \<Rightarrow> exn + Decimal \<Rightarrow> exn + Decimal \<Rightarrow> exn + Price" where
  \<comment> \<open>the arguments of \<open>Price(...)\<close> are evaluated in order; the first failure raises\<close>
  "make_Price c n g =
     (case c of Inl e \<Rightarrow> Inl e | Inr code \<Rightarrow>
      (case n of Inl e \<Rightarrow> Inl e | Inr nv \<Rightarrow>
       (case g of Inl e \<Rightarrow> Inl e | Inr gv \<Rightarrow>
          Inr \<lparr>currency_code = code, net = nv, gross = gv\<rparr>)))"

definition make_JobPrice :: "exn + Price \<Rightarrow> exn + Price \<Rightarrow> exn + JobPrice" where
  "make_JobPrice w wo =
     (case w of Inl e \<Rightarrow> Inl e | Inr a \<Rightarrow>
      (case wo of Inl e \<Rightarrow> Inl e | Inr b \<Rightarrow>
         Inr \<lparr>total_with_discount = a, total_without_discount = b\<rparr>))"

definition price_of_response :: "('w \<Rightarrow> string) \<Rightarrow> (string \<Rightarrow> exn + Decimal) \<Rightarrow> 'w json \<Rightarrow> exn + JobPrice" where
  "price_of_response str_of Decimal_str response =
     make_JobPrice
       (make_Price (subscript ''currencyCode'' (currencyCode response))
          (money str_of Decimal_str ''totalWoVatWDiscount'' (totalWoVatWDiscount response))
          (money str_of Decimal_str ''totalWVatWDiscount'' (totalWVatWDiscount response)))
       (make_Price (subscript ''currencyCode'' (currencyCode response))
          (money str_of Decimal_str ''totalWoVatWoDiscount'' (totalWoVatWoDiscount response))
          (money str_of Decimal_str ''totalWVatWoDiscount'' (totalWVatWoDiscount response)))"

definition Job_price :: "('w \<Rightarrow> string) \<Rightarrow> (string \<Rightarrow> exn + Decimal) \<Rightarrow> (nat \<Rightarrow> ('r, 'w, 'o) job_collection) \<Rightarrow> nat \<Rightarrow> 'r world \<Rightarrow> (exn + JobPrice option) \<times> 'r world" where
  \<comment> \<open>the result \<open>None\<close> is Python's \<^verbatim>\<open>None\<close>\<close>
  "Job_price str_of Decimal_str env self w =
     (let j = attrs_of w self; path = url_path env j @ ''/price''
      in case invoke (ApiGetJson path) (api_get_json (client (env (collection j))) path) w of
           (Inl exc, w') \<Rightarrow>
             (case exc of
                RequestException response \<Rightarrow>
                  (case response of
                     None \<Rightarrow> (Inl (AttributeError ''status_code''), w')
                   | Some status_code \<Rightarrow>
                       if status_code = 404 then (Inr None, w')
                       else (Inl (reraise APIError exc), w'))
              | _ \<Rightarrow> (Inl exc, w'))
         | (Inr response, w') \<Rightarrow>
             (case price_of_response str_of Decimal_str response of
                Inl e \<Rightarrow> (Inl e, w')
              | Inr jp \<Rightarrow> (Inr (Some jp), w')))"

definition to_metric :: "metric_body \<Rightarrow> exn + Metric" where
  "to_metric data =
     (case subscript ''WHITE_SPACES'' (WHITE_SPACES data) of Inl e \<Rightarrow> Inl e | Inr ws \<Rightarrow>
      (case subscript ''SEGMENTS'' (SEGMENTS data) of Inl e \<Rightarrow> Inl e | Inr sg \<Rightarrow>
       (case subscript ''WORDS'' (WORDS data) of Inl e \<Rightarrow> Inl e | Inr wd \<Rightarrow>
        (case subscript ''CHARACTERS'' (CHARACTERS data) of Inl e \<Rightarrow> Inl e | Inr ch \<Rightarrow>
           Inr \<lparr>white_spaces = ws, segments = sg, words = wd, characters = ch\<rparr>))))"

fun metrics_of_items :: "(string \<rightharpoonup> Metric) \<Rightarrow> (string \<times> metric_body) list \<Rightarrow> exn + (string \<rightharpoonup> Metric)" where
  \<comment> \<open>the dict comprehension over \<^verbatim>\<open>response['values'].items()\<close>\<close>
  "metrics_of_items acc [] = Inr acc"
| "metrics_of_items acc ((k, d) # xs) =
     (case to_metric d of Inl e \<Rightarrow> Inl e | Inr m \<Rightarrow> metrics_of_items (acc(k \<mapsto> m)) xs)"

definition Job_metrics :: "(nat \<Rightarrow> ('r, 'w, 'o) job_collection) \<Rightarrow> nat \<Rightarrow> 'r world \<Rightarrow> (exn + (string \<rightharpoonup> Metric)) \<times> 'r world" where
  "Job_metrics env self w =
     (let j = attrs_of w self; path = url_path env j @ ''/metrics''
      in case invoke (ApiGetJson path) (api_get_json (client (env (collection j))) path) w of
           (Inl exc, w') \<Rightarrow>
             (case exc of
                RequestException response \<Rightarrow>
                  (case response of
                     None \<Rightarrow> (Inl (AttributeError ''status_code''), w')
                   | Some status_code \<Rightarrow>
                       if status_code = 404 then (Inr Map.empty, w')
                       else (Inl (reraise APIError exc), w'))
              | _ \<Rightarrow> (Inl exc, w'))
         | (Inr response, w') \<Rightarrow>
             (case subscript ''values'' (values_key response) of
                Inl e \<Rightarrow> (Inl e, w')
              | Inr items \<Rightarrow> (metrics_of_items Map.empty items, w')))"

definition Job_refresh :: "(nat \<Rightarrow> ('r, 'w, 'o) job_collection) \<Rightarrow> nat \<Rightarrow> 'r world \<Rightarrow> (exn + unit) \<times> 'r world" where
  \<comment> \<open>\<^verbatim>\<open>self.__dict__ = updated.__dict__\<close>: afterwards the two objects share one \<^verbatim>\<open>__dict__\<close>\<close>
  "Job_refresh env self w =
     (let j = attrs_of w self
      in case invoke (JobsGet (collection j) (job_id j)) (jobs_get (env (collection j)) (job_id j)) w of
           (Inl e, w') \<Rightarrow> (Inl e, w')
         | (Inr a, w') \<Rightarrow>
             (case Job_init env a w' of
                (updated, w'') \<Rightarrow>
                  (Inr (), w''\<lparr>obj_dict := (obj_dict w'')(self := obj_dict w'' updated)\<rparr>)))"

definition Job_delete :: "(nat \<Rightarrow> ('r, 'w, 'o) job_collection) \<Rightarrow> nat \<Rightarrow> 'r world \<Rightarrow> (exn + unit) \<times> 'r world" where
  "Job_delete env self w =
     (let j = attrs_of w self
      in case invoke (ApiDelete (url_path env j))
                (api_delete (client (env (collection j))) (url_path env j)) w of
           (Inl exc, w') \<Rightarrow>
             (case exc of
                RequestException response \<Rightarrow> (Inl (reraise APIError exc), w')
              | _ \<Rightarrow> (Inl exc, w'))
         | (Inr u, w') \<Rightarrow> (Inr (), w'))"

section \<open>Notions used in the statements\<close>

fun isinstance_Price :: "pyval \<Rightarrow> bool" where
  "isinstance_Price (PPrice p) = True"
| "isinstance_Price _ = False"

fun isinstance_Metric :: "pyval \<Rightarrow> bool" where
  "isinstance_Metric (PMetric m) = True"
| "isinstance_Metric _ = False"

fun isinstance_Job :: "pyval \<Rightarrow> bool" where
  "isinstance_Job (PJob j) = True"
| "isinstance_Job _ = False"



text \<open>An amount of 28 digits, 99999999999999999999999999.99, and a price made of it.\<close>

definition huge_amount :: decimal where
  "huge_amount = \<lparr>dsign = False, dcoeff = 9999999999999999999999999999, dexp = - 2\<rparr>"


text \<open>Three prices for the examples.\<close>

definition ten_pounds :: Price where
  "ten_pounds =
     \<lparr>currency_code = ''GBP'', net = Finite \<lparr>dsign = False, dcoeff = 1000, dexp = - 2\<rparr>,
      gross = Finite \<lparr>dsign = False, dcoeff = 1250, dexp = - 2\<rparr>\<rparr>"



text \<open>
  What rounding to two decimal places, half to even, means: \<open>q\<close> has two decimal places
  and the sign of \<open>d\<close>, is at most half a hundredth away from \<open>d\<close>, and when it is exactly
  half a hundredth away its last digit is even.
\<close>

definition rounds_half_even_2dp :: "decimal \<Rightarrow> decimal \<Rightarrow> bool" where
  "rounds_half_even_2dp d q =
     (dexp q = - 2 \<and> dsign q = dsign d
      \<and> 200 * \<bar>dec_val q - dec_val d\<bar> \<le> 1
      \<and> (200 * \<bar>dec_val q - dec_val d\<bar> = 1 \<longrightarrow> even (dcoeff q)))"

text \<open>
  How \<open>Job.price\<close> stores the Decimal \<open>d\<close> that it read: a finite number rounded to two
  decimal places, half to even; a quiet NaN as a quiet NaN of the same sign and (up to
  the precision) the same payload. An infinity and a signalling NaN are never stored.
\<close>

fun stored_as :: "Decimal \<Rightarrow> Decimal \<Rightarrow> bool" where
  "stored_as (Finite d) (Finite q) = rounds_half_even_2dp d q"
| "stored_as (NaN s p) (NaN t r) = (t = s \<and> r = p mod 10 ^ prec)"
| "stored_as d fig = False"

text \<open>
  An example: a client whose registries know every id but \<^verbatim>\<open>None\<close>, one collection, and
  a state with one job, object 0. Wire values are strings; the remote state counts the
  deletions, and only the first deletion succeeds.
\<close>

definition example_json :: "string json" where
  "example_json =
     \<lparr>currencyCode = Some ''GBP'',
      totalWoVatWDiscount = Some ''10.125'', totalWVatWDiscount = Some ''12.15'',
      totalWoVatWoDiscount = Some ''11.5'', totalWVatWoDiscount = Some ''NaN'',
      values_key = None\<rparr>"

definition example_Decimal :: "string \<Rightarrow> exn + Decimal" where
  "example_Decimal s =
     (if s = ''10.125'' then Inr (Finite \<lparr>dsign = False, dcoeff = 10125, dexp = - 3\<rparr>)
      else if s = ''12.15'' then Inr (Finite \<lparr>dsign = False, dcoeff = 1215, dexp = - 2\<rparr>)
      else if s = ''11.5'' then Inr (Finite \<lparr>dsign = False, dcoeff = 115, dexp = - 1\<rparr>)
      else if s = ''NaN'' then Inr (NaN False 0)
      else Inl InvalidOperation)"

definition example_registry :: "string \<Rightarrow> int option \<Rightarrow> nat \<Rightarrow> (exn + string) \<times> nat" where
  "example_registry kind i r =
     (case i of None \<Rightarrow> (Inl (OtherError ''no such id''), r) | Some n \<Rightarrow> (Inr kind, r))"

definition example_client :: "(nat, string, string) client" where
  "example_client =
     \<lparr>per_page = 25,
      services_get = example_registry ''service'',
      locales_get = example_registry ''locale'',
      files_get = example_registry ''file'',
      api_get_json = (\<lambda>path r. (Inr example_json, r)),
      api_delete = (\<lambda>path r. (if r = 0 then Inr () else Inl (RequestException (Some 500)), Suc r))\<rparr>"

definition example_args :: JobArgs where
  "example_args =
     \<lparr>collection = 0, job_id = 7, status = ''COMPLETED'', service_id = Some 1,
      source_locale_id = Some 2, target_locale_id = None, source_file_id = Some 4,
      target_file_id = None\<rparr>"

definition example_collection :: "(nat, string, string) job_collection" where
  "example_collection =
     \<lparr>client = example_client,
      item_url_path = (\<lambda>i. ''jobs/'' @ str_int i),
      jobs_get = (\<lambda>i r. (Inr (example_args\<lparr>job_id := i\<rparr>), r))\<rparr>"

definition example_env :: "nat \<Rightarrow> (nat, string, string) job_collection" where
  "example_env c = example_collection"

definition example_job :: Job where
  "example_job =
     \<lparr>collection = 0, job_id = 7, status = ''NEW'', service_id = Some 1,
      source_locale_id = Some 2, target_locale_id = None, source_file_id = Some 4,
      target_file_id = None, files = \<lparr>job = 0, page_size = 25\<rparr>\<rparr>"

definition example_world :: "nat world" where
  "example_world =
     \<lparr>remote = 0, calls = [], obj_dict = (\<lambda>obj. 0), dicts = (\<lambda>d. example_job),
      next_obj = 1, next_dict = 1\<rparr>"

text \<open>The same collection behind a connection that is down: every request fails without a response.\<close>

definition offline_env :: "nat \<Rightarrow> (nat, string, string) job_collection" where
  "offline_env c =
     example_collection\<lparr>client :=
       example_client\<lparr>api_get_json := (\<lambda>path r. (Inl (RequestException None), r))\<rparr>\<rparr>"

text \<open>
  The price that the example's response stands for: three figures are rounded, the
  fourth, NaN on the wire, is stored as NaN.
\<close>

definition example_job_price :: JobPrice where
  "example_job_price =
     \<lparr>total_with_discount =
        \<lparr>currency_code = ''GBP'', net = Finite \<lparr>dsign = False, dcoeff = 1012, dexp = - 2\<rparr>,
         gross = Finite \<lparr>dsign = False, dcoeff = 1215, dexp = - 2\<rparr>\<rparr>,
      total_without_discount =
        \<lparr>currency_code = ''GBP'', net = Finite \<lparr>dsign = False, dcoeff = 1150, dexp = - 2\<rparr>,
         gross = NaN False 0\<rparr>\<rparr>"

text \<open>The example job with a target file, and the example state after one deletion.\<close>

definition example_world_with_target :: "nat world" where
  "example_world_with_target =
     example_world\<lparr>dicts := (\<lambda>d. example_job\<lparr>target_file_id := Some 9\<rparr>)\<rparr>"

definition example_world_deleted :: "nat world" where
  "example_world_deleted = example_world\<lparr>remote := 1\<rparr>"

text \<open>
  The attributes of the object \<open>obj\<close> that \<open>Job.__init__\<close> builds from the arguments \<open>a\<close>.
\<close>

definition fetched :: "(nat \<Rightarrow> ('r, 'w, 'o) job_collection) \<Rightarrow> JobArgs \<Rightarrow> nat \<Rightarrow> Job" where
  "fetched env a obj =
     \<lparr>collection = collection a, job_id = job_id a, status = status a,
      service_id = service_id a, source_locale_id = source_locale_id a,
      target_locale_id = target_locale_id a, source_file_id = source_file_id a,
      target_file_id = target_file_id a,
      files = \<lparr>job = obj, page_size = per_page (client (env (collection a)))\<rparr>\<rparr>"

section \<open>Properties of Metric\<close>

lemma Metric_eq_Metric:
  "Metric_eq m (PMetric m') = Inr (m = m')"
  by (cases m, cases m') (simp add: Metric_eq_def attr_eq_def getattr_def metric_attrs_def)

text \<open>
  C5. Metric addition adds the four counters one by one, is a total function (it has no
  failing branch), and under \<open>Metric.__eq__\<close> it is associative and commutative.
\<close>

theorem C5_Metric_add_comm_assoc:
  "Metric_add m1 m2 =
     \<lparr>white_spaces = white_spaces m1 + white_spaces m2, segments = segments m1 + segments m2,
      words = words m1 + words m2, characters = characters m1 + characters m2\<rparr>
   \<and> Metric_eq (Metric_add (Metric_add m1 m2) m3) (PMetric (Metric_add m1 (Metric_add m2 m3)))
       = Inr True
   \<and> Metric_eq (Metric_add m1 m2) (PMetric (Metric_add m2 m1)) = Inr True"
  by (simp add: Metric_eq_Metric) (simp add: Metric_add_def add.commute add.assoc)

text \<open>
  C6. A Metric is falsy (\<open>__nonzero__\<close> returns False) exactly when its four counters are
  all 0; Metric(0,0,0,0) is falsy and Metric(1,0,0,0) is not.
\<close>

theorem C6_Metric_nonzero:
  "(\<not> Metric_nonzero m) =
     (white_spaces m = 0 \<and> segments m = 0 \<and> words m = 0 \<and> characters m = 0)
   \<and> \<not> Metric_nonzero \<lparr>white_spaces = 0, segments = 0, words = 0, characters = 0\<rparr>
   \<and> Metric_nonzero \<lparr>white_spaces = 1, segments = 0, words = 0, characters = 0\<rparr>"
  by (auto simp: Metric_nonzero_def truthy_def)

section \<open>Digits and precision\<close>

lemma ndigits_pos: "0 < ndigits n"
  by (subst ndigits.simps) simp

lemma ndigits_le: "0 < k \<Longrightarrow> (ndigits n \<le> k) = (n < 10 ^ k)"
proof (induction n arbitrary: k rule: ndigits.induct)
  case (1 n)
  show ?case
  proof (cases "n < 10")
    case True
    have "(10::nat) ^ 1 \<le> 10 ^ k"
      using "1.prems" by (intro power_increasing) auto
    with True "1.prems" show ?thesis
      by (simp add: ndigits.simps[of n])
  next
    case False
    show ?thesis
    proof (cases k)
      case 0
      with "1.prems" show ?thesis by simp
    next
      case (Suc k')
      show ?thesis
      proof (cases "k' = 0")
        case True
        with False Suc ndigits_pos[of "n div 10"] show ?thesis
          by (simp add: ndigits.simps[of n])
      next
        case k': False
        have "(ndigits (n div 10) \<le> k') = (n div 10 < 10 ^ k')"
          using "1.IH"[OF False, of k'] k' by simp
        moreover have "(n div 10 < 10 ^ k') = (n < 10 ^ Suc k')"
          by (simp add: less_mult_imp_div_less div_less_iff_less_mult mult.commute)
        ultimately show ?thesis
          using False Suc by (simp add: ndigits.simps[of n])
      qed
    qed
  qed
qed

lemma ndigits_gt: "0 < k \<Longrightarrow> (k < ndigits n) = (10 ^ k \<le> n)"
  using ndigits_le[of k n] by auto

lemma ndigits_eq: "10 ^ k \<le> n \<Longrightarrow> n < 10 ^ Suc k \<Longrightarrow> ndigits n = Suc k"
proof (cases "k = 0")
  case True
  assume "n < 10 ^ Suc k"
  with True show ?thesis by (simp add: ndigits.simps[of n])
next
  case False
  assume a: "10 ^ k \<le> n" "n < 10 ^ Suc k"
  from a(1) False have "k < ndigits n" by (simp add: ndigits_gt)
  moreover from a(2) have "ndigits n \<le> Suc k"
    using ndigits_le[of "Suc k" n] by simp
  ultimately show ?thesis by simp
qed


lemma round_half_even_near:
  fixes c k :: nat
  defines "q \<equiv> round_half_even c k"
  shows "2 * \<bar>int q * 10 ^ k - int c\<bar> \<le> 10 ^ k"
    and "2 * \<bar>int q * 10 ^ k - int c\<bar> = 10 ^ k \<Longrightarrow> even q"
proof -
  define p :: nat where "p = 10 ^ k"
  define r where "r = c mod p"
  define h where "h = c div p"
  have c: "c = h * p + r" by (simp add: r_def h_def)
  have rp: "r < p" by (simp add: r_def p_def)
  have ip: "(10::int) ^ k = int p" by (simp add: p_def)
  show "2 * \<bar>int q * 10 ^ k - int c\<bar> \<le> 10 ^ k"
  proof (cases "p < 2 * r \<or> (2 * r = p \<and> odd h)")
    case True
    then have "q = h + 1"
      by (simp add: q_def round_half_even_def Let_def p_def[symmetric] r_def h_def)
    then have "int q * int p - int c = int p - int r" by (simp add: c algebra_simps)
    with True rp show ?thesis unfolding ip by auto
  next
    case False
    then have "q = h"
      by (simp add: q_def round_half_even_def Let_def p_def[symmetric] r_def h_def)
    then have "int q * int p - int c = - int r" by (simp add: c)
    with False show ?thesis unfolding ip by auto
  qed
  show "even q" if eq: "2 * \<bar>int q * 10 ^ k - int c\<bar> = 10 ^ k"
  proof (cases "p < 2 * r \<or> (2 * r = p \<and> odd h)")
    case True
    then have q: "q = h + 1"
      by (simp add: q_def round_half_even_def Let_def p_def[symmetric] r_def h_def)
    then have "int q * int p - int c = int p - int r" by (simp add: c algebra_simps)
    with eq rp have "2 * r = p" unfolding ip by auto
    with True have "odd h" by auto
    with q show ?thesis by simp
  next
    case False
    then have q: "q = h"
      by (simp add: q_def round_half_even_def Let_def p_def[symmetric] r_def h_def)
    then have "int q * int p - int c = - int r" by (simp add: c)
    with eq have "2 * r = p" unfolding ip by auto
    with False q show ?thesis by auto
  qed
qed













text \<open>
  The amount is one that \<open>Job.price\<close> can store: quantizing it succeeds and leaves it as it is.
\<close>

lemma huge_amount_quantized: "quantize_DP2 (Finite huge_amount) = Inr (Finite huge_amount)"
proof -
  have "ndigits 9999999999999999999999999999 = 28"
    using ndigits_eq[of 27 9999999999999999999999999999] by simp
  then show ?thesis
    by (simp add: quantize_finite_def huge_amount_def rescale_def DP2_exp_def prec_def)
qed

section \<open>Properties of Price\<close>










lemma Decimal_sub_Finite: "Decimal_sub (Finite g) (Finite n) = Inr (Finite (dec_sub g n))"
  by (simp add: dec_sub_def)


section \<open>Equality against values of another type\<close>

lemma getattr_not_Price: "\<not> isinstance_Price v \<Longrightarrow> getattr v ''currency_code'' = Inl (AttributeError ''currency_code'')"
  by (cases v) (simp_all add: getattr_def metric_attrs_def job_attrs_def job_price_attrs_def)

lemma getattr_not_Metric: "\<not> isinstance_Metric v \<Longrightarrow> getattr v ''white_spaces'' = Inl (AttributeError ''white_spaces'')"
  by (cases v) (simp_all add: getattr_def price_attrs_def job_attrs_def job_price_attrs_def)

lemma getattr_not_Job: "\<not> isinstance_Job v \<Longrightarrow> getattr v ''collection'' = Inl (AttributeError ''collection'')"
  by (cases v) (simp_all add: getattr_def price_attrs_def metric_attrs_def job_price_attrs_def)

text \<open>
  C10. \<open>JobPrice.__eq__\<close> returns False for every value that is not a JobPrice. The
  \<open>__eq__\<close> of Price, Metric and Job read the attributes of the other operand without a
  type test, so against a value of another type they raise AttributeError on the first
  attribute read instead of returning False.
\<close>

theorem C10_eq_type_guards:
  "(\<not> isinstance_JobPrice v \<longrightarrow> JobPrice_eq jp v = Inr False)
   \<and> (\<not> isinstance_Price v \<longrightarrow> Price_eq p v = Inl (AttributeError ''currency_code''))
   \<and> (\<not> isinstance_Metric v \<longrightarrow> Metric_eq m v = Inl (AttributeError ''white_spaces''))
   \<and> (\<not> isinstance_Job v \<longrightarrow> Job_eq j v = Inl (AttributeError ''collection''))"
  by (simp add: JobPrice_eq_def Price_eq_def Metric_eq_def Job_eq_def attr_eq_def
      getattr_not_Price getattr_not_Metric getattr_not_Job)

theorem C10_eq_type_guards_witness:
  "\<not> isinstance_JobPrice PNone \<and> JobPrice_eq example_job_price PNone = Inr False
   \<and> \<not> isinstance_Price PNone
   \<and> Price_eq ten_pounds PNone = Inl (AttributeError ''currency_code'')
   \<and> \<not> isinstance_Metric PNone
   \<and> Metric_eq \<lparr>white_spaces = 1, segments = 2, words = 3, characters = 4\<rparr> PNone
       = Inl (AttributeError ''white_spaces'')
   \<and> \<not> isinstance_Job PNone
   \<and> Job_eq example_job PNone = Inl (AttributeError ''collection'')"
  using C10_eq_type_guards[of PNone example_job_price ten_pounds
      "\<lparr>white_spaces = 1, segments = 2, words = 3, characters = 4\<rparr>" example_job]
  by simp

section \<open>Rounding to two decimal places\<close>

lemma quantize_finite_rounds:
  assumes "quantize_finite d = Inr q"
  shows "rounds_half_even_2dp d q"
proof (cases "dcoeff d = 0")
  case True
  with assms have "q = \<lparr>dsign = dsign d, dcoeff = 0, dexp = - 2\<rparr>"
    by (simp add: quantize_finite_def DP2_exp_def)
  with True show ?thesis
    by (simp add: rounds_half_even_2dp_def dec_val_def signed_def)
next
  case nz: False
  with assms have q: "q = rescale d (- 2)"
    by (auto simp: quantize_finite_def DP2_exp_def Let_def split: if_splits)
  show ?thesis
  proof (cases "- 2 \<le> dexp d")
    case True
    with nz q have qq: "q = \<lparr>dsign = dsign d, dcoeff = dcoeff d * 10 ^ nat (dexp d + 2), dexp = - 2\<rparr>"
      by (simp add: rescale_def)
    have "dec_val q = dec_val d"
    proof (cases "0 \<le> dexp d")
      case True
      then have "nat (dexp d + 2) = nat (dexp d) + 2" by simp
      with True show ?thesis by (simp add: qq dec_val_def signed_def power_add)
    next
      case False
      with True have "dexp d = - 1 \<or> dexp d = - 2" by auto
      then show ?thesis by (auto simp: qq dec_val_def signed_def)
    qed
    with qq show ?thesis by (simp add: rounds_half_even_2dp_def)
  next
    case False
    define k where "k = nat (- 2 - dexp d)"
    define Q where "Q = round_half_even (dcoeff d) k"
    from False nz q have qq: "q = \<lparr>dsign = dsign d, dcoeff = Q, dexp = - 2\<rparr>"
      by (simp add: rescale_def Q_def k_def)
    from False have e: "nat (- dexp d) = k + 2" by (simp add: k_def)
    have vd: "dec_val d = of_int (signed d) / (10 ^ k * 100)"
      using False e by (simp add: dec_val_def power_add)
    have vq: "dec_val q = of_int (signed q) / 100" by (simp add: qq dec_val_def)
    have diff: "200 * \<bar>dec_val q - dec_val d\<bar> = of_int (2 * \<bar>signed q * 10 ^ k - signed d\<bar>) / 10 ^ k"
    proof -
      have "dec_val q - dec_val d = of_int (signed q * 10 ^ k - signed d) / (10 ^ k * 100)"
        by (simp add: vd vq field_simps)
      then have "\<bar>dec_val q - dec_val d\<bar> = of_int \<bar>signed q * 10 ^ k - signed d\<bar> / (10 ^ k * 100)"
        by (simp add: abs_divide del: of_int_diff of_int_mult of_int_power)
      then show ?thesis by simp
    qed
    have sgn: "\<bar>signed q * 10 ^ k - signed d\<bar> = \<bar>int Q * 10 ^ k - int (dcoeff d)\<bar>"
      by (auto simp: qq signed_def abs_minus_commute)
    have le: "2 * \<bar>int Q * 10 ^ k - int (dcoeff d)\<bar> \<le> 10 ^ k"
      unfolding Q_def by (rule round_half_even_near(1))
    have "200 * \<bar>dec_val q - dec_val d\<bar> \<le> 1"
    proof -
      have "(of_int (2 * \<bar>int Q * 10 ^ k - int (dcoeff d)\<bar>) :: rat) \<le> of_int (10 ^ k)"
        using le by (simp only: of_int_le_iff)
      then show ?thesis unfolding diff sgn by (simp add: divide_le_eq)
    qed
    moreover have "even Q" if "200 * \<bar>dec_val q - dec_val d\<bar> = 1"
    proof -
      from that have "(of_int (2 * \<bar>int Q * 10 ^ k - int (dcoeff d)\<bar>) :: rat) = of_int (10 ^ k)"
        unfolding diff sgn by (simp add: divide_eq_eq)
      then have "2 * \<bar>int Q * 10 ^ k - int (dcoeff d)\<bar> = 10 ^ k"
        by (simp only: of_int_eq_iff)
      then show ?thesis unfolding Q_def by (rule round_half_even_near(2))
    qed
    ultimately show ?thesis by (simp add: rounds_half_even_2dp_def qq)
  qed
qed

lemma quantize_DP2_stored: "quantize_DP2 d = Inr fig \<Longrightarrow> stored_as d fig"
  by (cases d) (auto simp: fix_nan_def quantize_finite_rounds split: sum.splits)

lemma money_stored:
  "money str_of Decimal_str key x = Inr fig \<Longrightarrow>
     \<exists>v d. x = Some v \<and> Decimal_str (str_of v) = Inr d \<and> stored_as d fig"
  by (auto simp: money_def subscript_def quantize_DP2_stored split: option.splits sum.splits)

lemma make_Price_Inr:
  "make_Price c n g = Inr p \<Longrightarrow> c = Inr (currency_code p) \<and> n = Inr (net p) \<and> g = Inr (gross p)"
  by (auto simp: make_Price_def split: sum.splits)

lemma make_JobPrice_Inr:
  "make_JobPrice a b = Inr jp \<Longrightarrow>
     a = Inr (total_with_discount jp) \<and> b = Inr (total_without_discount jp)"
  by (auto simp: make_JobPrice_def split: sum.splits)

lemma Job_price_Some:
  assumes "fst (Job_price str_of Decimal_str env self w) = Inr (Some jp)"
  shows "\<exists>response.
     fst (api_get_json (client (env (collection (attrs_of w self))))
            (url_path env (attrs_of w self) @ ''/price'') (remote w)) = Inr response
     \<and> price_of_response str_of Decimal_str response = Inr jp"
  using assms
  by (auto simp: Job_price_def invoke_def Let_def split: prod.splits sum.splits exn.splits
      option.splits if_splits)

lemma ndigits_numeral:
  "ndigits (numeral n) = (if numeral n < (10::nat) then 1 else Suc (ndigits (numeral n div 10)))"
  by (rule ndigits.simps)

lemma ndigits_one: "ndigits (Suc 0) = Suc 0"
  by (subst ndigits.simps) simp

lemma example_ndigits:
  "ndigits 10125 = 5" "ndigits 1012 = 4" "ndigits 1215 = 4" "ndigits 115 = 3"
  "ndigits 1150 = 4"
  by (simp_all add: ndigits_numeral ndigits_one)

lemma example_price:
  "fst (Job_price id example_Decimal example_env 0 example_world) = Inr (Some example_job_price)"
  by (simp add: Job_price_def invoke_def Let_def attrs_of_def example_world_def example_env_def
      example_collection_def example_client_def example_job_def url_path_def
      price_of_response_def make_JobPrice_def make_Price_def money_def subscript_def
      example_json_def example_Decimal_def quantize_finite_def rescale_def DP2_exp_def
      prec_def fix_nan_def round_half_even_def example_job_price_def example_ndigits)

text \<open>
  The rounding is half to even, the default of the decimal context, not half away from
  zero: 10.125 becomes 10.12.
\<close>

lemma half_even_not_half_up:
  "quantize_DP2 (Finite \<lparr>dsign = False, dcoeff = 10125, dexp = - 3\<rparr>)
     = Inr (Finite \<lparr>dsign = False, dcoeff = 1012, dexp = - 2\<rparr>)"
  by (simp add: quantize_finite_def rescale_def DP2_exp_def prec_def round_half_even_def
      example_ndigits)

section \<open>The price of a job\<close>

text \<open>
  C4, as the spec states it, fails on a figure that is not a number: a wire value "NaN"
  reads as a quiet NaN, \<open>quantize\<close> returns a quiet NaN as it is, and \<open>Job.price\<close> returns
  a JobPrice whose figure is NaN, not a number with two decimal places.
\<close>

theorem C4_price_stores_NaN:
  "totalWVatWoDiscount example_json = Some ''NaN''
   \<and> example_Decimal (id ''NaN'') = Inr (NaN False 0)
   \<and> fst (Job_price id example_Decimal example_env 0 example_world) = Inr (Some example_job_price)
   \<and> gross (total_without_discount example_job_price) = NaN False 0"
  using example_price by (simp add: example_json_def example_Decimal_def example_job_price_def)

text \<open>
  C4, amended. When \<open>Job.price\<close> returns a JobPrice, each of its four figures comes from
  the Decimal read from the string of the wire value under its key, quantized to
  \<open>DP2\<close>: a finite value is rounded to two decimal places, half to even (the default
  rounding of the decimal context); a quiet NaN is stored as a quiet NaN. An infinity
  and a signalling NaN are never stored: \<open>quantize\<close> raises InvalidOperation on them.
\<close>

theorem C4_price_rounding:
  assumes "fst (Job_price str_of Decimal_str env self w) = Inr (Some jp)"
  shows "(\<exists>response v1 v2 v3 v4 d1 d2 d3 d4.
     fst (api_get_json (client (env (collection (attrs_of w self))))
            (url_path env (attrs_of w self) @ ''/price'') (remote w)) = Inr response
     \<and> totalWoVatWDiscount response = Some v1 \<and> Decimal_str (str_of v1) = Inr d1
     \<and> stored_as d1 (net (total_with_discount jp))
     \<and> totalWVatWDiscount response = Some v2 \<and> Decimal_str (str_of v2) = Inr d2
     \<and> stored_as d2 (gross (total_with_discount jp))
     \<and> totalWoVatWoDiscount response = Some v3 \<and> Decimal_str (str_of v3) = Inr d3
     \<and> stored_as d3 (net (total_without_discount jp))
     \<and> totalWVatWoDiscount response = Some v4 \<and> Decimal_str (str_of v4) = Inr d4
     \<and> stored_as d4 (gross (total_without_discount jp)))
   \<and> (\<forall>d q. stored_as (Finite d) q = (\<exists>r. q = Finite r \<and> rounds_half_even_2dp d r))
   \<and> (\<forall>s p q. stored_as (NaN s p) q = (q = NaN s (p mod 10 ^ 28)))
   \<and> (\<forall>s p q. \<not> stored_as (Infinity s) q \<and> \<not> stored_as (sNaN s p) q)
   \<and> (\<forall>s p. quantize_DP2 (Infinity s) = Inl InvalidOperation
            \<and> quantize_DP2 (sNaN s p) = Inl InvalidOperation)"
proof -
  from Job_price_Some[where env = env and w = w and self = self, OF assms] obtain response where
    r: "fst (api_get_json (client (env (collection (attrs_of w self))))
            (url_path env (attrs_of w self) @ ''/price'') (remote w)) = Inr response"
    and p: "price_of_response str_of Decimal_str response = Inr jp"
    by blast
  note jp = make_JobPrice_Inr[OF p[unfolded price_of_response_def]]
  note a = make_Price_Inr[OF conjunct1[OF jp]]
  note b = make_Price_Inr[OF conjunct2[OF jp]]
  from a obtain v1 d1 where 1: "totalWoVatWDiscount response = Some v1"
    "Decimal_str (str_of v1) = Inr d1" "stored_as d1 (net (total_with_discount jp))"
    using money_stored by blast
  from a obtain v2 d2 where 2: "totalWVatWDiscount response = Some v2"
    "Decimal_str (str_of v2) = Inr d2" "stored_as d2 (gross (total_with_discount jp))"
    using money_stored by blast
  from b obtain v3 d3 where 3: "totalWoVatWoDiscount response = Some v3"
    "Decimal_str (str_of v3) = Inr d3" "stored_as d3 (net (total_without_discount jp))"
    using money_stored by blast
  from b obtain v4 d4 where 4: "totalWVatWoDiscount response = Some v4"
    "Decimal_str (str_of v4) = Inr d4" "stored_as d4 (gross (total_without_discount jp))"
    using money_stored by blast
  have fin: "stored_as (Finite d) q = (\<exists>r. q = Finite r \<and> rounds_half_even_2dp d r)" for d q
    by (cases q) simp_all
  have nan: "stored_as (NaN s p) q = (q = NaN s (p mod 10 ^ 28))" for s p q
    by (cases q) (auto simp: prec_def)
  have never: "\<not> stored_as (Infinity s) q \<and> \<not> stored_as (sNaN s p) q" for s p q
    by simp
  from r 1 2 3 4 fin nan never show ?thesis by (simp only: quantize_DP2.simps) blast
qed

theorem C4_price_rounding_witness:
  "fst (Job_price id example_Decimal example_env 0 example_world) = Inr (Some example_job_price)
   \<and> (\<exists>response v1 v2 v3 v4 d1 d2 d3 d4.
     fst (api_get_json (client (example_env (collection (attrs_of example_world 0))))
            (url_path example_env (attrs_of example_world 0) @ ''/price'') (remote example_world))
       = Inr response
     \<and> totalWoVatWDiscount response = Some v1 \<and> example_Decimal (id v1) = Inr d1
     \<and> stored_as d1 (net (total_with_discount example_job_price))
     \<and> totalWVatWDiscount response = Some v2 \<and> example_Decimal (id v2) = Inr d2
     \<and> stored_as d2 (gross (total_with_discount example_job_price))
     \<and> totalWoVatWoDiscount response = Some v3 \<and> example_Decimal (id v3) = Inr d3
     \<and> stored_as d3 (net (total_without_discount example_job_price))
     \<and> totalWVatWoDiscount response = Some v4 \<and> example_Decimal (id v4) = Inr d4
     \<and> stored_as d4 (gross (total_without_discount example_job_price)))
   \<and> rounds_half_even_2dp \<lparr>dsign = False, dcoeff = 10125, dexp = - 3\<rparr>
        \<lparr>dsign = False, dcoeff = 1012, dexp = - 2\<rparr>"
proof -
  note c4 = C4_price_rounding[where env = example_env and w = example_world and self = 0,
      OF example_price]
  have "stored_as (Finite \<lparr>dsign = False, dcoeff = 10125, dexp = - 3\<rparr>)
      (Finite \<lparr>dsign = False, dcoeff = 1012, dexp = - 2\<rparr>)"
    using quantize_DP2_stored[OF half_even_not_half_up] .
  with c4 example_price show ?thesis by (simp only: stored_as.simps) blast
qed

section \<open>Failures of the price and metrics requests\<close>

lemma Job_price_404:
  assumes "fst (api_get_json (client (env (collection (attrs_of w self))))
            (url_path env (attrs_of w self) @ ''/price'') (remote w)) = Inl (RequestException (Some 404))"
  shows "fst (Job_price str_of Decimal_str env self w) = Inr None"
  using assms by (auto simp: Job_price_def invoke_def Let_def split: prod.splits)

lemma Job_metrics_404:
  assumes "fst (api_get_json (client (env (collection (attrs_of w self))))
            (url_path env (attrs_of w self) @ ''/metrics'') (remote w)) = Inl (RequestException (Some 404))"
  shows "fst (Job_metrics env self w) = Inr Map.empty"
  using assms by (auto simp: Job_metrics_def invoke_def Let_def split: prod.splits)

lemma Job_price_status:
  assumes "fst (api_get_json (client (env (collection (attrs_of w self))))
            (url_path env (attrs_of w self) @ ''/price'') (remote w)) = Inl (RequestException (Some c))"
    and "c \<noteq> 404"
  shows "fst (Job_price str_of Decimal_str env self w) = Inl (APIError (RequestException (Some c)))"
  using assms by (auto simp: Job_price_def invoke_def Let_def reraise_def split: prod.splits)

lemma Job_metrics_status:
  assumes "fst (api_get_json (client (env (collection (attrs_of w self))))
            (url_path env (attrs_of w self) @ ''/metrics'') (remote w)) = Inl (RequestException (Some c))"
    and "c \<noteq> 404"
  shows "fst (Job_metrics env self w) = Inl (APIError (RequestException (Some c)))"
  using assms by (auto simp: Job_metrics_def invoke_def Let_def reraise_def split: prod.splits)

lemma Job_price_no_response:
  assumes "fst (api_get_json (client (env (collection (attrs_of w self))))
            (url_path env (attrs_of w self) @ ''/price'') (remote w)) = Inl (RequestException None)"
  shows "fst (Job_price str_of Decimal_str env self w) = Inl (AttributeError ''status_code'')"
  using assms by (auto simp: Job_price_def invoke_def Let_def split: prod.splits)

lemma Job_metrics_no_response:
  assumes "fst (api_get_json (client (env (collection (attrs_of w self))))
            (url_path env (attrs_of w self) @ ''/metrics'') (remote w)) = Inl (RequestException None)"
  shows "fst (Job_metrics env self w) = Inl (AttributeError ''status_code'')"
  using assms by (auto simp: Job_metrics_def invoke_def Let_def split: prod.splits)

text \<open>
  C2 fails on a transport failure that carries no response. \<open>Job.price\<close> and
  \<open>Job.metrics\<close> read \<^verbatim>\<open>exc.response.status_code\<close> before they decide; when the
  request fails without a response (\<^verbatim>\<open>exc.response\<close> is \<^verbatim>\<open>None\<close>), that read raises
  AttributeError, and the failure is neither turned into a value nor wrapped as APIError.
\<close>

theorem C2_connection_error_not_wrapped:
  "fst (api_get_json (client (offline_env 0)) ''jobs/7/price'' 0) = Inl (RequestException None)
   \<and> fst (Job_price id example_Decimal offline_env 0 example_world)
       = Inl (AttributeError ''status_code'')
   \<and> fst (Job_metrics offline_env 0 example_world) = Inl (AttributeError ''status_code'')"
proof -
  have a: "fst (api_get_json (client (offline_env c)) path r) = Inl (RequestException None)"
    for c path r
    by (simp add: offline_env_def)
  show ?thesis
    using a Job_price_no_response[of offline_env example_world 0, OF a]
      Job_metrics_no_response[of offline_env example_world 0, OF a]
    by simp
qed

section \<open>Relation accessors\<close>

text \<open>
  C3, as the spec states it, fails for \<open>target_locale\<close>: with \<open>target_locale_id\<close> None the
  accessor still calls the locale registry, with None, and returns what the call returns.
\<close>

theorem C3_target_locale_always_looks_up:
  "target_locale_id (attrs_of example_world 0) = None
   \<and> calls example_world = []
   \<and> Job_target_locale example_env 0 example_world
       = (Inl (OtherError ''no such id''), example_world\<lparr>calls := [LocalesGet None]\<rparr>)"
  by (simp add: Job_target_locale_def invoke_def Let_def attrs_of_def example_world_def
      example_job_def example_env_def example_collection_def example_client_def
      example_registry_def)

text \<open>
  C3, amended. \<open>target_file\<close> returns None without any call on a collaborator when
  \<open>target_file_id\<close> is None; otherwise it makes exactly one call, \<open>files.get\<close> of that id,
  and returns its result. \<open>target_locale\<close> always makes exactly one call,
  \<open>locales.get\<close> of \<open>target_locale_id\<close> (None included), and returns its result.
\<close>

theorem C3_target_accessors:
  "(target_file_id (attrs_of w self) = None \<longrightarrow> Job_target_file env self w = (Inr None, w))
   \<and> (target_file_id (attrs_of w self) \<noteq> None \<longrightarrow>
        fst (Job_target_file env self w)
          = map_sum id Some
              (fst (files_get (client (env (collection (attrs_of w self))))
                      (target_file_id (attrs_of w self)) (remote w)))
        \<and> calls (snd (Job_target_file env self w))
          = calls w @ [FilesGet (target_file_id (attrs_of w self))])
   \<and> fst (Job_target_locale env self w)
        = fst (locales_get (client (env (collection (attrs_of w self))))
                 (target_locale_id (attrs_of w self)) (remote w))
   \<and> calls (snd (Job_target_locale env self w))
        = calls w @ [LocalesGet (target_locale_id (attrs_of w self))]"
  by (auto simp: Job_target_file_def Job_target_locale_def invoke_def Let_def
      split: prod.splits sum.splits)

theorem C3_target_accessors_witness:
  "target_file_id (attrs_of example_world 0) = None
   \<and> Job_target_file example_env 0 example_world = (Inr None, example_world)
   \<and> target_file_id (attrs_of example_world_with_target 0) \<noteq> None
   \<and> fst (Job_target_file example_env 0 example_world_with_target) = Inr (Some ''file'')
   \<and> calls (snd (Job_target_file example_env 0 example_world_with_target)) = [FilesGet (Some 9)]"
proof -
  have a: "target_file_id (attrs_of example_world 0) = None"
    by (simp add: attrs_of_def example_world_def example_job_def)
  have b: "target_file_id (attrs_of example_world_with_target 0) = Some 9"
    by (simp add: attrs_of_def example_world_with_target_def example_world_def example_job_def)
  have c: "files_get (client (example_env c)) (Some 9) r = (Inr ''file'', r)" for c r
    by (simp add: example_env_def example_collection_def example_client_def example_registry_def)
  have d: "calls example_world_with_target = []"
    by (simp add: example_world_with_target_def example_world_def)
  show ?thesis
    using C3_target_accessors[of example_world 0 example_env]
      C3_target_accessors[of example_world_with_target 0 example_env] a b c d
    by simp
qed

section \<open>Refresh and delete\<close>

lemma prim_eq_opt_val: "prim_eq (opt_val a) (opt_val b) = Inr (a = b)"
  by (cases a; cases b) (simp_all add: opt_val_def)

lemma Job_eq_Job:
  "Job_eq j (PJob j') =
     Inr (collection j = collection j' \<and> job_id j = job_id j' \<and> status j = status j'
          \<and> service_id j = service_id j' \<and> source_locale_id j = source_locale_id j'
          \<and> target_locale_id j = target_locale_id j' \<and> source_file_id j = source_file_id j'
          \<and> target_file_id j = target_file_id j')"
  by (simp add: Job_eq_def attr_eq_def getattr_def job_attrs_def prim_eq_opt_val)

lemma Job_refresh_step:
  assumes "jobs_get (env (collection (attrs_of w self))) (job_id (attrs_of w self)) (remote w)
             = (Inr a, r)"
  shows "\<exists>w1. Job_refresh env self w = (Inr (), w1)
     \<and> attrs_of w1 self = fetched env a (next_obj w)
     \<and> attrs_of w1 (next_obj w) = fetched env a (next_obj w)
     \<and> obj_dict w1 self = obj_dict w1 (next_obj w)
     \<and> remote w1 = r
     \<and> next_obj w1 = Suc (next_obj w)"
  using assms
  by (simp add: Job_refresh_def invoke_def Job_init_def Let_def attrs_of_def fetched_def)

text \<open>
  C8. When the collection returns a copy of the same id and the same collection and the
  remote state stays as it is, \<open>refresh\<close> gives the object, under its old reference, the
  attributes of the fetched copy (all eight fields and \<open>files\<close>; the two objects then share
  one \<^verbatim>\<open>__dict__\<close>), and a second \<open>refresh\<close> leaves it equal, under \<open>Job.__eq__\<close>, to what
  it was after the first.
\<close>

theorem C8_refresh:
  assumes "jobs_get (env (collection (attrs_of w self))) (job_id (attrs_of w self)) (remote w)
             = (Inr a, remote w)"
    and "collection a = collection (attrs_of w self)"
    and "job_id a = job_id (attrs_of w self)"
  shows "\<exists>w1 w2.
     Job_refresh env self w = (Inr (), w1)
     \<and> attrs_of w1 self = fetched env a (next_obj w)
     \<and> obj_dict w1 self = obj_dict w1 (next_obj w)
     \<and> Job_refresh env self w1 = (Inr (), w2)
     \<and> Job_eq (attrs_of w2 self) (PJob (attrs_of w1 self)) = Inr True"
proof -
  from Job_refresh_step[where env = env and w = w and self = self, OF assms(1)] obtain w1 where
    1: "Job_refresh env self w = (Inr (), w1)"
       "attrs_of w1 self = fetched env a (next_obj w)"
       "obj_dict w1 self = obj_dict w1 (next_obj w)"
       "remote w1 = remote w"
    by blast
  have "jobs_get (env (collection (attrs_of w1 self))) (job_id (attrs_of w1 self)) (remote w1)
          = (Inr a, remote w)"
    using assms 1(2,4) by (simp add: fetched_def)
  from Job_refresh_step[where env = env and w = w1 and self = self, OF this] obtain w2 where
    2: "Job_refresh env self w1 = (Inr (), w2)"
       "attrs_of w2 self = fetched env a (next_obj w1)"
    by blast
  have "Job_eq (attrs_of w2 self) (PJob (attrs_of w1 self)) = Inr True"
    by (simp add: Job_eq_Job 1(2) 2(2) fetched_def)
  with 1 2 show ?thesis by blast
qed

theorem C8_refresh_witness:
  "jobs_get (example_env (collection (attrs_of example_world 0)))
       (job_id (attrs_of example_world 0)) (remote example_world)
     = (Inr (example_args\<lparr>job_id := 7\<rparr>), remote example_world)
   \<and> collection (example_args\<lparr>job_id := 7\<rparr>) = collection (attrs_of example_world 0)
   \<and> job_id (example_args\<lparr>job_id := 7\<rparr>) = job_id (attrs_of example_world 0)
   \<and> (\<exists>w1 w2.
     Job_refresh example_env 0 example_world = (Inr (), w1)
     \<and> attrs_of w1 0 = fetched example_env (example_args\<lparr>job_id := 7\<rparr>) (next_obj example_world)
     \<and> obj_dict w1 0 = obj_dict w1 (next_obj example_world)
     \<and> Job_refresh example_env 0 w1 = (Inr (), w2)
     \<and> Job_eq (attrs_of w2 0) (PJob (attrs_of w1 0)) = Inr True)"
proof -
  have a: "jobs_get (example_env (collection (attrs_of example_world 0)))
       (job_id (attrs_of example_world 0)) (remote example_world)
     = (Inr (example_args\<lparr>job_id := 7\<rparr>), remote example_world)"
    by (simp add: example_env_def example_collection_def attrs_of_def example_world_def
        example_job_def)
  have b: "collection (example_args\<lparr>job_id := 7\<rparr>) = collection (attrs_of example_world 0)"
    by (simp add: example_args_def attrs_of_def example_world_def example_job_def)
  have c: "job_id (example_args\<lparr>job_id := 7\<rparr>) = job_id (attrs_of example_world 0)"
    by (simp add: example_args_def attrs_of_def example_world_def example_job_def)
  from C8_refresh[where env = example_env and w = example_world and self = 0, OF a b c] a b c
  show ?thesis by blast
qed

text \<open>
  C9. \<open>delete\<close> makes one call, \<open>api_delete\<close> of the path that the collection gives for the
  job's id; the remote state afterwards is the one that this call leaves, and nothing
  else of the state changes: every attribute of every Job is as before, whether the call
  succeeds or fails. A RequestException of the call is raised again wrapped as APIError;
  any other exception of the call passes through.
\<close>

theorem C9_delete:
  "snd (Job_delete env self w) =
     w\<lparr>remote := snd (api_delete (client (env (collection (attrs_of w self))))
                      (item_url_path (env (collection (attrs_of w self)))
                         (job_id (attrs_of w self))) (remote w)),
       calls := calls w @ [ApiDelete (item_url_path (env (collection (attrs_of w self)))
                                         (job_id (attrs_of w self)))]\<rparr>
   \<and> dicts (snd (Job_delete env self w)) = dicts w
   \<and> obj_dict (snd (Job_delete env self w)) = obj_dict w
   \<and> attrs_of (snd (Job_delete env self w)) obj = attrs_of w obj
   \<and> calls (snd (Job_delete env self w)) = calls w @ [ApiDelete (url_path env (attrs_of w self))]
   \<and> (fst (api_delete (client (env (collection (attrs_of w self))))
              (url_path env (attrs_of w self)) (remote w)) = Inl (RequestException x) \<longrightarrow>
        fst (Job_delete env self w) = Inl (APIError (RequestException x)))
   \<and> (fst (api_delete (client (env (collection (attrs_of w self))))
              (url_path env (attrs_of w self)) (remote w)) = Inr () \<longrightarrow>
        fst (Job_delete env self w) = Inr ())
   \<and> (fst (api_delete (client (env (collection (attrs_of w self))))
              (url_path env (attrs_of w self)) (remote w)) = Inl e
        \<and> (\<forall>response. e \<noteq> RequestException response) \<longrightarrow>
        fst (Job_delete env self w) = Inl e)"
  by (auto simp: Job_delete_def invoke_def Let_def attrs_of_def reraise_def url_path_def
      split: prod.splits sum.splits exn.splits)

lemma example_path: "url_path example_env (attrs_of example_world obj) = ''jobs/7''"
proof -
  have "digits_of 7 = ''7''" by code_simp
  then show ?thesis
    by (simp add: url_path_def example_env_def example_collection_def attrs_of_def
        example_world_def example_job_def str_int_def)
qed

theorem C9_delete_witness:
  "fst (api_delete (client (example_env (collection (attrs_of example_world 0))))
          (url_path example_env (attrs_of example_world 0)) (remote example_world)) = Inr ()
   \<and> Job_delete example_env 0 example_world
       = (Inr (), example_world\<lparr>remote := 1, calls := [ApiDelete ''jobs/7'']\<rparr>)
   \<and> attrs_of (snd (Job_delete example_env 0 example_world)) 0 = attrs_of example_world 0
   \<and> fst (api_delete (client (example_env (collection (attrs_of example_world_deleted 0))))
          (url_path example_env (attrs_of example_world_deleted 0)) (remote example_world_deleted))
       = Inl (RequestException (Some 500))
   \<and> Job_delete example_env 0 example_world_deleted
       = (Inl (APIError (RequestException (Some 500))),
          example_world_deleted\<lparr>remote := 2, calls := [ApiDelete ''jobs/7'']\<rparr>)
   \<and> attrs_of (snd (Job_delete example_env 0 example_world_deleted)) 0
       = attrs_of example_world_deleted 0"
proof -
  have a: "api_delete (client (example_env c)) path (remote example_world) = (Inr (), 1)"
    for c path
    by (simp add: example_env_def example_collection_def example_client_def example_world_def)
  have b: "api_delete (client (example_env c)) path (remote example_world_deleted)
       = (Inl (RequestException (Some 500)), 2)" for c path
    by (simp add: example_env_def example_collection_def example_client_def
        example_world_deleted_def)
  have p: "url_path example_env (attrs_of example_world_deleted 0) = ''jobs/7''"
    "item_url_path (example_env (collection (attrs_of example_world 0)))
       (job_id (attrs_of example_world 0)) = ''jobs/7''"
    "item_url_path (example_env (collection (attrs_of example_world_deleted 0)))
       (job_id (attrs_of example_world_deleted 0)) = ''jobs/7''"
    using example_path[of 0]
    by (simp_all add: url_path_def attrs_of_def example_world_deleted_def)
  have c: "calls example_world = []" "calls example_world_deleted = []"
    by (simp_all add: example_world_def example_world_deleted_def)
  note d1 = C9_delete[of example_env 0 example_world 0 "Some 500" InvalidOperation]
  note d2 = C9_delete[of example_env 0 example_world_deleted 0 "Some 500" InvalidOperation]
  have r1: "Job_delete example_env 0 example_world
       = (Inr (), example_world\<lparr>remote := 1, calls := [ApiDelete ''jobs/7'']\<rparr>)"
    using d1 a c p example_path[of 0] by (simp add: prod_eq_iff)
  have r2: "Job_delete example_env 0 example_world_deleted
       = (Inl (APIError (RequestException (Some 500))),
          example_world_deleted\<lparr>remote := 2, calls := [ApiDelete ''jobs/7'']\<rparr>)"
    using d2 b c p by (simp add: prod_eq_iff)
  have h1: "fst (api_delete (client (example_env (collection (attrs_of example_world 0))))
          (url_path example_env (attrs_of example_world 0)) (remote example_world)) = Inr ()"
    using a by simp
  have h4: "fst (api_delete (client (example_env (collection (attrs_of example_world_deleted 0))))
          (url_path example_env (attrs_of example_world_deleted 0)) (remote example_world_deleted))
       = Inl (RequestException (Some 500))"
    using b by simp
  note h3 = conjunct1[OF conjunct2[OF conjunct2[OF conjunct2[OF d1]]]]
  note h6 = conjunct1[OF conjunct2[OF conjunct2[OF conjunct2[OF d2]]]]
  show ?thesis
    by (intro conjI) (rule h1, rule r1, rule h3, rule h4, rule r2, rule h6)
qed

end
